theory Spec2Isabelle
  imports Complex_Main
begin

section \<open>Values of the program\<close>

text \<open>
  The program (src/index.ts) is a short-lived TypeScript process. Its JSON inputs are
  loosely shaped, so the values it compares keep the distinctions JavaScript makes.

  A reset marker is a string, \<open>null\<close> or \<open>undefined\<close>: \<open>State.last_reset\<close> is declared
  \<open>string | null\<close>, the parameter \<open>resetAt\<close> is declared \<open>string | undefined\<close>, and the
  two are compared with \<open>!==\<close>, which tells \<open>null\<close> from \<open>undefined\<close>. With one datatype
  for both, \<open>!==\<close> is inequality of HOL values.
\<close>

datatype js_string = Undefined | Null | Str string

text \<open>\<open>x ?? null\<close>: \<open>null\<close> when \<open>x\<close> is \<open>null\<close> or \<open>undefined\<close>, \<open>x\<close> otherwise.\<close>

fun or_null :: "js_string \<Rightarrow> js_string" where
  "or_null Undefined = Null"
| "or_null Null = Null"
| "or_null (Str s) = Str s"

text \<open>
  The spec speaks of a marker that is present or absent: both \<open>null\<close> and \<open>undefined\<close>
  are an absent marker.
\<close>

fun marker :: "js_string \<Rightarrow> string option" where
  "marker Undefined = None"
| "marker Null = None"
| "marker (Str s) = Some s"

text \<open>\<open>interface State { notified_thresholds: number[]; last_reset: string | null }\<close>\<close>

record State =
  notified_thresholds :: "int list"
  last_reset :: js_string

text \<open>\<open>const THRESHOLDS = [50, 80, 90, 95]\<close>\<close>

definition THRESHOLDS :: "int list" where
  "THRESHOLDS = [50, 80, 90, 95]"

section \<open>The threshold notifier\<close>

text \<open>
  The icons are the Unicode code points of the source's string literals:
  U+1F534 (red circle), U+1F7E0 (orange circle), U+1F7E1 (yellow circle).
\<close>

definition red_circle :: nat where "red_circle = 0x1F534"
definition orange_circle :: nat where "orange_circle = 0x1F7E0"
definition yellow_circle :: nat where "yellow_circle = 0x1F7E1"

text \<open>
  One call of \<open>sendNotification(title, body, urgency)\<close>, a firing event. The title is
  the template \<open>${icon} Claude Usage ${threshold}%\<close> and the body is
  \<open>5-hour limit at ${fivePct}%\nResets in ${timeUntil(resetAt)}\<close>; the record keeps
  the values the templates are filled with (the rendering of numbers and of the
  remaining time is not modelled) and the urgency string as it is passed.
\<close>

record notification =
  n_icon :: nat
  n_threshold :: int
  n_fivePct :: int
  n_resetAt :: js_string
  n_urgency :: string

text \<open>Lines 303-312: urgency and icon of a threshold.\<close>

definition urgency_icon :: "int \<Rightarrow> string \<times> nat" where
  "urgency_icon threshold =
     (if threshold \<ge> 90 then (''critical'', red_circle)
      else if threshold \<ge> 80 then (''critical'', orange_circle)
      else (''normal'', yellow_circle))"

definition mk_notification :: "int \<Rightarrow> js_string \<Rightarrow> int \<Rightarrow> notification" where
  "mk_notification fivePct resetAt threshold =
     (case urgency_icon threshold of (urgency, icon) \<Rightarrow>
        \<lparr>n_icon = icon, n_threshold = threshold, n_fivePct = fivePct,
         n_resetAt = resetAt, n_urgency = urgency\<rparr>)"

text \<open>
  The \<open>for (const threshold of THRESHOLDS)\<close> loop, over the thresholds still to visit.
  \<open>notified\<close> is the array being pushed to (\<open>includes\<close> is membership), \<open>sent\<close> the
  notifications sent so far, in order.
\<close>

fun notify_loop ::
  "int \<Rightarrow> js_string \<Rightarrow> int list \<Rightarrow> int list \<Rightarrow> notification list
     \<Rightarrow> int list \<times> notification list" where
  "notify_loop fivePct resetAt [] notified sent = (notified, sent)"
| "notify_loop fivePct resetAt (threshold # rest) notified sent =
     (if fivePct \<ge> threshold \<and> threshold \<notin> set notified
      then notify_loop fivePct resetAt rest (notified @ [threshold])
             (sent @ [mk_notification fivePct resetAt threshold])
      else notify_loop fivePct resetAt rest notified sent)"

text \<open>
  \<open>checkAndNotify(fivePct, resetAt, state)\<close>: the state it returns and the
  notifications it sent.
\<close>

definition checkAndNotify ::
  "int \<Rightarrow> js_string \<Rightarrow> State \<Rightarrow> State \<times> notification list" where
  "checkAndNotify fivePct resetAt state =
     (let state1 = (if last_reset state \<noteq> resetAt
                    then \<lparr>notified_thresholds = [], last_reset = or_null resetAt\<rparr>
                    else state);
          (notified, sent) =
             notify_loop fivePct resetAt THRESHOLDS (notified_thresholds state1) []
      in (state1\<lparr>notified_thresholds := notified\<rparr>, sent))"

section \<open>Effects: exceptions and files\<close>

text \<open>
  A call that may throw (a promise that may reject): the message of the exception,
  or the value.
\<close>

datatype 'a outcome = Throws string | Returns 'a

text \<open>\<open>try { body } catch { }\<close> followed by \<open>return d\<close>: an exception is swallowed.\<close>

fun catch_default :: "'a outcome \<Rightarrow> 'a \<Rightarrow> 'a" where
  "catch_default (Throws e) d = d"
| "catch_default (Returns v) d = v"

text \<open>
  A JSON file read through \<open>Bun.file(path)\<close>: it is missing (\<open>exists()\<close> is false), or
  it exists and \<open>json()\<close> rejects (unreadable or not JSON), or \<open>json()\<close> resolves to a
  value, taken to have the shape of the interface the program declares for it.
\<close>

datatype 'a json_file = Missing | Malformed | Content 'a

fun file_exists :: "'a json_file \<Rightarrow> bool" where
  "file_exists Missing = False"
| "file_exists Malformed = True"
| "file_exists (Content v) = True"

fun file_json :: "'a json_file \<Rightarrow> 'a outcome" where
  "file_json Missing = Throws ''ENOENT''"
| "file_json Malformed = Throws ''SyntaxError''"
| "file_json (Content v) = Returns v"

text \<open>Truthiness of a \<open>string | null | undefined\<close> value: absent and empty are falsy.\<close>

fun truthy :: "string option \<Rightarrow> bool" where
  "truthy None = False"
| "truthy (Some s) = (s \<noteq> [])"

section \<open>Credentials\<close>

text \<open>The argument of \<open>isExpired\<close>, of type \<open>string | number | undefined\<close>.\<close>

datatype expiry = NoExpiry | ExpiryString string | ExpiryNumber real

text \<open>\<open>!expiresAt\<close>: \<open>undefined\<close>, the empty string and the number 0 are falsy.\<close>

fun falsy :: "expiry \<Rightarrow> bool" where
  "falsy NoExpiry = True"
| "falsy (ExpiryString s) = (s = [])"
| "falsy (ExpiryNumber n) = (n = 0)"

text \<open>
  \<open>isExpired(expiresAt)\<close>. \<open>now\<close> is \<open>Date.now()\<close>, in milliseconds since the epoch;
  \<open>getTime s\<close> is \<open>new Date(s).getTime()\<close>, with \<open>None\<close> for \<open>NaN\<close> (an invalid date),
  and every comparison with \<open>NaN\<close> is false.
\<close>

definition isExpired :: "int \<Rightarrow> (string \<Rightarrow> int option) \<Rightarrow> expiry \<Rightarrow> bool" where
  "isExpired now getTime expiresAt =
     (if falsy expiresAt then False
      else (case expiresAt of
              ExpiryNumber n \<Rightarrow> real_of_int now \<ge> n
            | ExpiryString s \<Rightarrow> (case getTime s of None \<Rightarrow> False | Some t \<Rightarrow> now \<ge> t)
            | NoExpiry \<Rightarrow> False))"

text \<open>
  \<open>interface ClaudeCredentials { claudeAiOauth?: { accessToken?: string; expiresAt?: string } }\<close>
  and
  \<open>interface OpenCodeAuth { anthropic?: { type?: string; access?: string; expires?: number } }\<close>.
  An optional field is an option; a JSON number is a real.
\<close>

record ClaudeOauth =
  accessToken :: "string option"
  expiresAt :: "string option"

record ClaudeCredentials =
  claudeAiOauth :: "ClaudeOauth option"

record OpenCodeAnthropic =
  auth_type :: "string option"
  access :: "string option"
  expires :: "real option"

record OpenCodeAuth =
  anthropic :: "OpenCodeAnthropic option"

text \<open>An optional expiry field as the argument of \<open>isExpired\<close>.\<close>

fun expiry_of_string :: "string option \<Rightarrow> expiry" where
  "expiry_of_string None = NoExpiry"
| "expiry_of_string (Some s) = ExpiryString s"

fun expiry_of_number :: "real option \<Rightarrow> expiry" where
  "expiry_of_number None = NoExpiry"
| "expiry_of_number (Some n) = ExpiryNumber n"

text \<open>The body of the \<open>try\<close> block of \<open>getClaudeToken\<close>, then the function.\<close>

definition getClaudeToken_try ::
  "int \<Rightarrow> (string \<Rightarrow> int option) \<Rightarrow> ClaudeCredentials json_file \<Rightarrow> string option outcome" where
  "getClaudeToken_try now getTime f =
     (if \<not> file_exists f then Returns None
      else (case file_json f of
              Throws e \<Rightarrow> Throws e
            | Returns creds \<Rightarrow>
                (case claudeAiOauth creds of
                   None \<Rightarrow> Returns None
                 | Some oauth \<Rightarrow>
                     if \<not> truthy (accessToken oauth) then Returns None
                     else if isExpired now getTime (expiry_of_string (expiresAt oauth))
                     then Returns None
                     else Returns (accessToken oauth))))"

definition getClaudeToken ::
  "int \<Rightarrow> (string \<Rightarrow> int option) \<Rightarrow> ClaudeCredentials json_file \<Rightarrow> string option" where
  "getClaudeToken now getTime f = catch_default (getClaudeToken_try now getTime f) None"

definition getOpenCodeToken_try ::
  "int \<Rightarrow> (string \<Rightarrow> int option) \<Rightarrow> OpenCodeAuth json_file \<Rightarrow> string option outcome" where
  "getOpenCodeToken_try now getTime f =
     (if \<not> file_exists f then Returns None
      else (case file_json f of
              Throws e \<Rightarrow> Throws e
            | Returns auth \<Rightarrow>
                (case anthropic auth of
                   None \<Rightarrow> Returns None
                 | Some a \<Rightarrow>
                     if \<not> truthy (access a) \<or> auth_type a \<noteq> Some ''oauth'' then Returns None
                     else if isExpired now getTime (expiry_of_number (expires a))
                     then Returns None
                     else Returns (access a))))"

definition getOpenCodeToken ::
  "int \<Rightarrow> (string \<Rightarrow> int option) \<Rightarrow> OpenCodeAuth json_file \<Rightarrow> string option" where
  "getOpenCodeToken now getTime f = catch_default (getOpenCodeToken_try now getTime f) None"

text \<open>
  \<open>getAccessToken()\<close>, with the credential stores it consulted, in order: a store is
  consulted when the function reading it is called.
\<close>

datatype source = ClaudeCli | OpenCode

definition getAccessToken ::
  "int \<Rightarrow> (string \<Rightarrow> int option) \<Rightarrow> ClaudeCredentials json_file \<Rightarrow> OpenCodeAuth json_file
     \<Rightarrow> string option \<times> source list" where
  "getAccessToken now getTime cf ocf =
     (let claudeToken = getClaudeToken now getTime cf in
      if truthy claudeToken then (claudeToken, [ClaudeCli])
      else (let openCodeToken = getOpenCodeToken now getTime ocf in
            if truthy openCodeToken then (openCodeToken, [ClaudeCli, OpenCode])
            else (None, [ClaudeCli, OpenCode])))"

section \<open>Upstream responses\<close>

text \<open>
  \<open>interface UsageWindow { utilization?: number; resets_at?: string }\<close>. The field
  \<open>resets_at\<close> is handed to \<open>checkAndNotify\<close> as it is, so it keeps the difference
  between a \<open>null\<close> and a missing field.
\<close>

record UsageWindow =
  utilization :: "real option"
  resets_at :: js_string

record ExtraUsage =
  is_enabled :: "bool option"
  used_credits :: "real option"
  monthly_limit :: "real option"

text \<open>\<open>error?: { message?: string }\<close>\<close>

record ApiError =
  message :: "string option"

record UsageResponse =
  five_hour :: "UsageWindow option"
  seven_day :: "UsageWindow option"
  extra_usage :: "ExtraUsage option"
  u_error :: "ApiError option"

record Account =
  full_name :: "string option"

record Organization =
  org_name :: "string option"
  organization_type :: "string option"
  rate_limit_tier :: "string option"

text \<open>
  \<open>interface ProfileResponse\<close> declares \<open>account\<close> and \<open>organization\<close> only. The JSON
  of the response can still carry a top-level \<open>error\<close> object; \<open>p_error\<close> holds it,
  and no code reads it.
\<close>

record ProfileResponse =
  account :: "Account option"
  organization :: "Organization option"
  p_error :: "ApiError option"

text \<open>\<open>x ?? {}\<close> on a window: the window with no field.\<close>

definition empty_window :: UsageWindow where
  "empty_window = \<lparr>utilization = None, resets_at = Undefined\<rparr>"

fun window_or_empty :: "UsageWindow option \<Rightarrow> UsageWindow" where
  "window_or_empty None = empty_window"
| "window_or_empty (Some w) = w"

text \<open>\<open>Math.floor(w.utilization ?? 0)\<close>\<close>

definition floor_pct :: "UsageWindow \<Rightarrow> int" where
  "floor_pct w = (case utilization w of None \<Rightarrow> \<lfloor>0 :: real\<rfloor> | Some u \<Rightarrow> \<lfloor>u\<rfloor>)"

section \<open>The notification state store\<close>

definition zero_state :: State where
  "zero_state = \<lparr>notified_thresholds = [], last_reset = Null\<rparr>"

text \<open>
  The \<open>try\<close> block of \<open>loadState\<close>: it returns the parsed file, or falls through
  (\<open>None\<close>), or throws. Then \<open>loadState\<close>: the value returned inside the block, else
  the zero-value state of the last line.
\<close>

definition loadState_try :: "State json_file \<Rightarrow> State option outcome" where
  "loadState_try f =
     (if file_exists f
      then (case file_json f of Throws e \<Rightarrow> Throws e | Returns st \<Rightarrow> Returns (Some st))
      else Returns None)"

definition loadState :: "State json_file \<Rightarrow> State outcome" where
  "loadState f =
     (case catch_default (loadState_try f) None of
        Some st \<Rightarrow> Returns st
      | None \<Rightarrow> Returns zero_state)"

text \<open>
  \<open>saveState(state)\<close>: \<open>write\<close> is the outcome of \<open>Bun.write(STATE_FILE, ...)\<close>. The
  function returns whether it completed, together with the content of the state file
  it leaves behind (\<open>None\<close> when nothing was written).
\<close>

definition saveState :: "unit outcome \<Rightarrow> State \<Rightarrow> unit outcome \<times> State option" where
  "saveState write state =
     (case write of
        Returns u \<Rightarrow> (Returns (), Some state)
      | Throws e \<Rightarrow> (Returns (), None))"

section \<open>The program\<close>

text \<open>
  What one invocation reads from its surroundings: the clock, the date parser, the two
  credential stores, the two endpoints (given the bearer token), the state file, and
  the outcome of writing the state file.
\<close>

record Env =
  env_now :: int
  env_getTime :: "string \<Rightarrow> int option"
  env_claude_credentials :: "ClaudeCredentials json_file"
  env_opencode_auth :: "OpenCodeAuth json_file"
  env_usage_api :: "string \<Rightarrow> UsageResponse outcome"
  env_profile_api :: "string \<Rightarrow> ProfileResponse outcome"
  env_state_file :: "State json_file"
  env_state_write :: "unit outcome"

text \<open>
  \<open>interface WaybarOutput { text; tooltip; class; percentage? }\<close>. The text and the
  tooltip are kept as the template that is filled in:
  \<^item> \<open>TextUnknown\<close> is the glyph followed by \<open>?\<close>, \<open>TextFailed\<close> the glyph followed by
    \<open>!\<close>, \<open>TextPercent p\<close> the glyph followed by \<open>${p}%\<close>;
  \<^item> \<open>NoCredentialsTooltip\<close> is the fixed guidance text, \<open>ApiErrorTooltip m\<close> is
    \<open>API error: ${m}\<close>, and \<open>UsageTooltip profile usage\<close> stands for the joined
    \<open>tooltipLines\<close> built from the two responses (their formatting is not modelled).
  The class is the string written; an absent percentage is \<open>None\<close>.
\<close>

datatype bar_text = TextUnknown | TextFailed | TextPercent int

datatype tooltip = NoCredentialsTooltip | ApiErrorTooltip string
  | UsageTooltip ProfileResponse UsageResponse

record WaybarOutput =
  w_text :: bar_text
  w_tooltip :: tooltip
  w_class :: string
  w_percentage :: "int option"

text \<open>
  What one invocation does: the payloads printed on standard output, the
  notifications sent, the state written to the state file (if any), and the exception
  that ended \<open>main\<close> (if any).
\<close>

record Run =
  stdout :: "WaybarOutput list"
  notifications :: "notification list"
  written :: "State option"
  uncaught :: "string option"

text \<open>A run that prints one payload and does nothing else.\<close>

definition output_only :: "WaybarOutput \<Rightarrow> Run" where
  "output_only result =
     \<lparr>stdout = [result], notifications = [], written = None, uncaught = None\<rparr>"

text \<open>
  \<open>await Promise.all([usage, profile])\<close> inside \<open>try\<close>: the pair, or the rejection.
  When both calls reject, the program reports the one that rejects first in time; the
  model reports the usage call's.
\<close>

fun promise_all :: "'a outcome \<Rightarrow> 'b outcome \<Rightarrow> ('a \<times> 'b) outcome" where
  "promise_all (Throws e) p = Throws e"
| "promise_all (Returns a) (Throws e) = Throws e"
| "promise_all (Returns a) (Returns b) = Returns (a, b)"

text \<open>Lines 392-400: the CSS class of a percentage.\<close>

definition cssClass :: "int \<Rightarrow> string" where
  "cssClass fivePct =
     (if fivePct > 80 then ''critical''
      else if fivePct > 50 then ''warning''
      else ''normal'')"

text \<open>The part of \<open>main\<close> after the check for an upstream error (lines 378-433).\<close>

definition report_usage :: "Env \<Rightarrow> UsageResponse \<Rightarrow> ProfileResponse \<Rightarrow> Run" where
  "report_usage env usage profile =
     (let fiveHour = window_or_empty (five_hour usage);
          fivePct = floor_pct fiveHour;
          resetAt = resets_at fiveHour
      in (case loadState (env_state_file env) of
            Throws e \<Rightarrow>
              \<lparr>stdout = [], notifications = [], written = None, uncaught = Some e\<rparr>
          | Returns state0 \<Rightarrow>
              (case checkAndNotify fivePct resetAt state0 of
                 (state, sent) \<Rightarrow>
                   (case saveState (env_state_write env) state of
                      (Throws e, file) \<Rightarrow>
                        \<lparr>stdout = [], notifications = sent, written = file,
                         uncaught = Some e\<rparr>
                    | (Returns u, file) \<Rightarrow>
                        \<lparr>stdout = [\<lparr>w_text = TextPercent fivePct,
                                    w_tooltip = UsageTooltip profile usage,
                                    w_class = cssClass fivePct,
                                    w_percentage = Some fivePct\<rparr>],
                         notifications = sent, written = file, uncaught = None\<rparr>))))"

text \<open>\<open>main()\<close>\<close>

definition main :: "Env \<Rightarrow> Run" where
  "main env =
     (case fst (getAccessToken (env_now env) (env_getTime env)
                  (env_claude_credentials env) (env_opencode_auth env)) of
        None \<Rightarrow>
          output_only \<lparr>w_text = TextUnknown, w_tooltip = NoCredentialsTooltip,
                       w_class = ''error'', w_percentage = None\<rparr>
      | Some token \<Rightarrow>
          if token = [] then
            output_only \<lparr>w_text = TextUnknown, w_tooltip = NoCredentialsTooltip,
                         w_class = ''error'', w_percentage = None\<rparr>
          else
            (case promise_all (env_usage_api env token) (env_profile_api env token) of
               Throws e \<Rightarrow>
                 output_only \<lparr>w_text = TextFailed, w_tooltip = ApiErrorTooltip e,
                              w_class = ''error'', w_percentage = None\<rparr>
             | Returns (usage, profile) \<Rightarrow>
                 (case u_error usage of
                    Some err \<Rightarrow>
                      output_only
                        \<lparr>w_text = TextFailed,
                         w_tooltip = ApiErrorTooltip
                           (case message err of None \<Rightarrow> ''Unknown'' | Some m \<Rightarrow> m),
                         w_class = ''error'', w_percentage = None\<rparr>
                  | None \<Rightarrow> report_usage env usage profile)))"

section \<open>Auxiliary definitions\<close>

text \<open>
  The thresholds that fire at utilization \<open>u\<close> when \<open>notified\<close> have fired already:
  those of \<open>THRESHOLDS\<close>, in order, that \<open>u\<close> has reached and \<open>notified\<close> lacks.
\<close>

definition crossed :: "int \<Rightarrow> int list \<Rightarrow> int list" where
  "crossed u notified = filter (\<lambda>t. t \<le> u \<and> t \<notin> set notified) THRESHOLDS"

text \<open>
  A concrete invocation, used to instantiate the theorems below: the clock is at
  1000 ms, the date parser knows the one instant of that time, the Claude CLI store
  holds a token without expiry, the OpenCode store an OAuth token whose expiry is 0, the
  five-hour window is at 19 percent, and there is no state file yet.
\<close>

definition example_getTime :: "string \<Rightarrow> int option" where
  "example_getTime s = (if s = ''1970-01-01T00:00:01.000Z'' then Some 1000 else None)"

definition example_usage :: UsageResponse where
  "example_usage =
     \<lparr>five_hour = Some \<lparr>utilization = Some 19, resets_at = Str ''2026-01-01T05:00:00Z''\<rparr>,
      seven_day = None, extra_usage = None, u_error = None\<rparr>"

definition example_profile :: ProfileResponse where
  "example_profile = \<lparr>account = None, organization = None, p_error = None\<rparr>"

definition example_env :: Env where
  "example_env =
     \<lparr>env_now = 1000,
      env_getTime = example_getTime,
      env_claude_credentials =
        Content \<lparr>claudeAiOauth = Some \<lparr>accessToken = Some ''tok'', expiresAt = None\<rparr>\<rparr>,
      env_opencode_auth =
        Content \<lparr>anthropic = Some \<lparr>auth_type = Some ''oauth'', access = Some ''oc'',
                                    expires = Some 0\<rparr>\<rparr>,
      env_usage_api = (\<lambda>token. Returns example_usage),
      env_profile_api = (\<lambda>token. Returns example_profile),
      env_state_file = Missing,
      env_state_write = Returns ()\<rparr>"

text \<open>The same invocation when the usage response carries an error object.\<close>

definition usage_error_env :: Env where
  "usage_error_env =
     example_env\<lparr>env_usage_api :=
       (\<lambda>token. Returns (example_usage\<lparr>u_error := Some \<lparr>message = Some ''rate limited''\<rparr>\<rparr>))\<rparr>"

text \<open>
  The same invocation when the five-hour window is at 60 percent and has no
  \<open>resets_at\<close> field.
\<close>

definition no_resets_at_env :: Env where
  "no_resets_at_env =
     example_env\<lparr>env_usage_api :=
       (\<lambda>token. Returns (example_usage\<lparr>five_hour :=
                   Some \<lparr>utilization = Some 60, resets_at = Undefined\<rparr>\<rparr>))\<rparr>"

text \<open>The same invocation when the five-hour window is at 80.5 percent.\<close>

definition fractional_env :: Env where
  "fractional_env =
     example_env\<lparr>env_usage_api :=
       (\<lambda>token. Returns (example_usage\<lparr>five_hour :=
                   Some \<lparr>utilization = Some 80.5,
                         resets_at = Str ''2026-01-01T05:00:00Z''\<rparr>\<rparr>))\<rparr>"

text \<open>The same invocation when only the profile response carries an error object.\<close>

definition profile_error_env :: Env where
  "profile_error_env =
     example_env\<lparr>env_profile_api :=
       (\<lambda>token. Returns (example_profile\<lparr>p_error := Some \<lparr>message = Some ''forbidden''\<rparr>\<rparr>))\<rparr>"

section \<open>The notifier: what the loop computes\<close>

lemma notify_loop_eq:
  "distinct ts \<Longrightarrow>
   notify_loop u r ts notified sent =
     (notified @ filter (\<lambda>t. t \<le> u \<and> t \<notin> set notified) ts,
      sent @ map (mk_notification u r) (filter (\<lambda>t. t \<le> u \<and> t \<notin> set notified) ts))"
proof (induction ts arbitrary: notified sent)
  case Nil
  then show ?case by simp
next
  case (Cons t ts)
  have same: "filter (\<lambda>x. x \<le> u \<and> x \<notin> set (notified @ [t])) ts
              = filter (\<lambda>x. x \<le> u \<and> x \<notin> set notified) ts"
    using Cons.prems by (intro filter_cong) auto
  from Cons.prems have d: "distinct ts" by simp
  show ?case
    using Cons.IH [OF d] same by simp
qed

lemma distinct_THRESHOLDS: "distinct THRESHOLDS"
  by (simp add: THRESHOLDS_def)

lemma n_threshold_mk [simp]: "n_threshold (mk_notification u r t) = t"
  by (simp add: mk_notification_def split: prod.split)

lemma map_n_threshold_mk [simp]: "map n_threshold (map (mk_notification u r) ts) = ts"
  by (induction ts) simp_all

text \<open>
  The two branches of \<open>checkAndNotify\<close>. When \<open>last_reset\<close> and \<open>resetAt\<close> are the same
  JavaScript value, the state keeps its thresholds and gains the crossed ones.
\<close>

lemma checkAndNotify_same:
  "last_reset st = r \<Longrightarrow>
   checkAndNotify u r st =
     (st\<lparr>notified_thresholds := notified_thresholds st @ crossed u (notified_thresholds st)\<rparr>,
      map (mk_notification u r) (crossed u (notified_thresholds st)))"
  by (simp add: checkAndNotify_def notify_loop_eq [OF distinct_THRESHOLDS] crossed_def)

text \<open>
  When they differ, the thresholds are dropped and the marker replaced before the loop
  runs, so the result is the one the empty set gives.
\<close>

lemma checkAndNotify_reset:
  "last_reset st \<noteq> r \<Longrightarrow>
   checkAndNotify u r st =
     (\<lparr>notified_thresholds = crossed u [], last_reset = or_null r\<rparr>,
      map (mk_notification u r) (crossed u []))"
  by (simp add: checkAndNotify_def notify_loop_eq [OF distinct_THRESHOLDS] crossed_def)

lemma crossed_again: "crossed u (notified @ crossed u notified) = []"
  by (auto simp: crossed_def filter_empty_conv)

text \<open>
  A second run with the same inputs sends nothing and changes nothing, for every
  \<open>resetAt\<close> other than \<open>undefined\<close>: a string or \<open>null\<close> is stored as it is, so
  the second comparison finds the markers equal.
\<close>

lemma checkAndNotify_idempotent:
  assumes "resetAt \<noteq> Undefined"
  shows "snd (checkAndNotify u resetAt (fst (checkAndNotify u resetAt st))) = []
       \<and> fst (checkAndNotify u resetAt (fst (checkAndNotify u resetAt st)))
           = fst (checkAndNotify u resetAt st)"
proof (cases "last_reset st = resetAt")
  case True
  then show ?thesis
    by (simp add: checkAndNotify_same crossed_again)
next
  case False
  from assms have "or_null resetAt = resetAt" by (cases resetAt) simp_all
  with False show ?thesis
    using crossed_again [of u "[]"]
    by (simp add: checkAndNotify_reset checkAndNotify_same)
qed

text \<open>
  Claim C1: the thresholds are cleared exactly when the reset markers differ, and are
  kept when both markers are absent. \<open>checkAndNotify_reset\<close> and \<open>checkAndNotify_same\<close>
  give the two branches for the comparison \<open>!==\<close>. That comparison tells
  \<open>null\<close> from \<open>undefined\<close>: with \<open>last_reset\<close> null (what the program stores for
  an absent marker) and \<open>resetAt\<close> undefined (a window without \<open>resets_at\<close>), both
  markers are absent, and the thresholds 50 and 80 already notified are dropped.
\<close>

theorem checkAndNotify_clears_on_null_vs_undefined:
  "marker Null = marker Undefined
   \<and> checkAndNotify 0 Undefined \<lparr>notified_thresholds = [50, 80], last_reset = Null\<rparr>
       = (\<lparr>notified_thresholds = [], last_reset = Null\<rparr>, [])"
  by (simp add: checkAndNotify_def THRESHOLDS_def)

text \<open>
  Claim C2: a second run on the state of a first run, with the same utilization and
  the same marker, sends nothing. \<open>checkAndNotify_idempotent\<close> shows it for a marker
  that is a string or \<open>null\<close>. With \<open>resetAt\<close> undefined it fails: starting from
  the zero-value state at 60 percent, the first run notifies threshold 50 and stores
  \<open>null\<close>, and the second run, on that state, notifies threshold 50 again.
\<close>

theorem checkAndNotify_refires_on_undefined_marker:
  "fst (checkAndNotify 60 Undefined zero_state)
       = \<lparr>notified_thresholds = [50], last_reset = Null\<rparr>
   \<and> map n_threshold
        (snd (checkAndNotify 60 Undefined (fst (checkAndNotify 60 Undefined zero_state))))
       = [50]"
  by (simp add: checkAndNotify_def THRESHOLDS_def zero_state_def)

text \<open>
  The branch without reset, in full: when \<open>last_reset\<close> and \<open>resetAt\<close> are the same
  JavaScript value, for every utilization \<open>u\<close> and every list of thresholds already
  notified, the thresholds returned are the old ones together with those of 50, 80,
  90, 95 that are at most \<open>u\<close>, hence a superset; one notification is sent for each
  threshold that was added, in ascending order, and the marker is kept.
\<close>

lemma checkAndNotify_adds_crossed_thresholds:
  assumes "last_reset st = resetAt"
  shows "set (notified_thresholds (fst (checkAndNotify u resetAt st)))
           = set (notified_thresholds st) \<union> {t \<in> {50, 80, 90, 95}. t \<le> u}
       \<and> set (notified_thresholds st)
           \<subseteq> set (notified_thresholds (fst (checkAndNotify u resetAt st)))
       \<and> map n_threshold (snd (checkAndNotify u resetAt st))
           = filter (\<lambda>t. t \<le> u \<and> t \<notin> set (notified_thresholds st)) [50, 80, 90, 95]
       \<and> notified_thresholds (fst (checkAndNotify u resetAt st))
           = notified_thresholds st @ map n_threshold (snd (checkAndNotify u resetAt st))
       \<and> last_reset (fst (checkAndNotify u resetAt st)) = resetAt"
  using assms by (auto simp: checkAndNotify_same crossed_def THRESHOLDS_def)

text \<open>At 92 percent with nothing notified yet, 50, 80 and 90 fire and 95 does not.\<close>

lemma checkAndNotify_jump_to_92:
  "map n_threshold (snd (checkAndNotify 92 (Str ''r'')
       \<lparr>notified_thresholds = [], last_reset = Str ''r''\<rparr>)) = [50, 80, 90]
   \<and> notified_thresholds (fst (checkAndNotify 92 (Str ''r'')
       \<lparr>notified_thresholds = [], last_reset = Str ''r''\<rparr>)) = [50, 80, 90]"
  using checkAndNotify_adds_crossed_thresholds
      [of "\<lparr>notified_thresholds = [], last_reset = Str ''r''\<rparr>" "Str ''r''" 92]
  by simp

text \<open>
  Claim C3: with no epoch change, the thresholds returned are the notified ones united
  with those that the utilization has reached, a superset, and one notification is sent
  for each threshold newly added. \<open>checkAndNotify_adds_crossed_thresholds\<close> shows it
  when the two markers are the same JavaScript value. With the stored marker \<open>null\<close>
  and \<open>resetAt\<close> undefined, both markers are absent, so the epoch has not changed;
  at 60 percent with 50 and 80 already notified, the program returns the thresholds
  \<open>[50]\<close>, so 80 is lost, and it notifies 50, which was not newly added.
\<close>

theorem checkAndNotify_drops_notified_on_absent_markers:
  "marker Null = marker Undefined
   \<and> notified_thresholds
        (fst (checkAndNotify 60 Undefined
                \<lparr>notified_thresholds = [50, 80], last_reset = Null\<rparr>))
       = [50]
   \<and> map n_threshold
        (snd (checkAndNotify 60 Undefined
                \<lparr>notified_thresholds = [50, 80], last_reset = Null\<rparr>))
       = [50]"
  by (simp add: checkAndNotify_def THRESHOLDS_def)



section \<open>Credentials\<close>

lemma getClaudeToken_truthy: "getClaudeToken now getTime cf = Some a \<Longrightarrow> a \<noteq> []"
  by (cases cf)
     (auto simp: getClaudeToken_def getClaudeToken_try_def
           split: option.splits if_splits)

lemma getAccessToken_truthy:
  "fst (getAccessToken now getTime cf ocf) = Some token \<Longrightarrow> token \<noteq> []"
  by (auto simp: getAccessToken_def Let_def split: if_splits)

text \<open>
  Claim C5: when both stores yield a token, \<open>getAccessToken\<close> returns the token of
  the Claude CLI store, the OpenCode store is not consulted, and the result is the same
  whatever the OpenCode store holds.
\<close>

theorem getAccessToken_prefers_claude_cli:
  assumes "getClaudeToken now getTime cf = Some a"
      and "getOpenCodeToken now getTime ocf = Some b"
  shows "getAccessToken now getTime cf ocf = (Some a, [ClaudeCli])
       \<and> OpenCode \<notin> set (snd (getAccessToken now getTime cf ocf))
       \<and> getAccessToken now getTime cf ocf' = getAccessToken now getTime cf ocf"
  using getClaudeToken_truthy [OF assms(1)] assms(1)
  by (simp add: getAccessToken_def)

theorem getAccessToken_prefers_claude_cli_witness:
  "getClaudeToken (env_now example_env) (env_getTime example_env)
      (env_claude_credentials example_env) = Some ''tok''
   \<and> getOpenCodeToken (env_now example_env) (env_getTime example_env)
      (env_opencode_auth example_env) = Some ''oc''
   \<and> getAccessToken (env_now example_env) (env_getTime example_env)
      (env_claude_credentials example_env) (env_opencode_auth example_env)
        = (Some ''tok'', [ClaudeCli])"
proof -
  have c: "getClaudeToken (env_now example_env) (env_getTime example_env)
      (env_claude_credentials example_env) = Some ''tok''"
    by (simp add: example_env_def getClaudeToken_def getClaudeToken_try_def isExpired_def)
  have o: "getOpenCodeToken (env_now example_env) (env_getTime example_env)
      (env_opencode_auth example_env) = Some ''oc''"
    by (simp add: example_env_def getOpenCodeToken_def getOpenCodeToken_try_def isExpired_def)
  show ?thesis
    using c o getAccessToken_prefers_claude_cli [OF c o] by simp
qed

text \<open>
  Claim C6: an expiry equal to the current time counts as expired, in both encodings:
  the comparison is \<open>now >= expiry\<close>. It is stated for a clock that is not at the
  epoch itself (\<open>now \<noteq> 0\<close>) and for a non-empty date string, the values the guard
  \<open>!expiresAt\<close> lets through. A credential without expiry is never expired: each store then yields its
  token, and a credential that expires exactly now is rejected.
\<close>

theorem isExpired_boundary_inclusive:
  "(now \<noteq> 0 \<longrightarrow> isExpired now getTime (ExpiryNumber (real_of_int now)))
   \<and> (s \<noteq> [] \<and> getTime s = Some now \<longrightarrow> isExpired now getTime (ExpiryString s))
   \<and> (e \<noteq> 0 \<longrightarrow> isExpired now getTime (ExpiryNumber e) = (e \<le> real_of_int now))
   \<and> (s \<noteq> [] \<and> getTime s = Some t \<longrightarrow> isExpired now getTime (ExpiryString s) = (t \<le> now))
   \<and> \<not> isExpired now getTime NoExpiry
   \<and> (tok \<noteq> [] \<longrightarrow>
        getClaudeToken now getTime
          (Content \<lparr>claudeAiOauth = Some \<lparr>accessToken = Some tok, expiresAt = None\<rparr>\<rparr>)
          = Some tok
        \<and> getOpenCodeToken now getTime
          (Content \<lparr>anthropic = Some \<lparr>auth_type = Some ''oauth'', access = Some tok,
                                      expires = None\<rparr>\<rparr>) = Some tok)
   \<and> (s \<noteq> [] \<and> getTime s = Some now \<longrightarrow>
        getClaudeToken now getTime
          (Content \<lparr>claudeAiOauth = Some \<lparr>accessToken = Some tok, expiresAt = Some s\<rparr>\<rparr>)
          = None)
   \<and> (now \<noteq> 0 \<longrightarrow>
        getOpenCodeToken now getTime
          (Content \<lparr>anthropic = Some \<lparr>auth_type = Some ''oauth'', access = Some tok,
                                      expires = Some (real_of_int now)\<rparr>\<rparr>) = None)"
  by (simp add: isExpired_def getClaudeToken_def getClaudeToken_try_def
        getOpenCodeToken_def getOpenCodeToken_try_def)

theorem isExpired_boundary_inclusive_witness:
  "(1000::int) \<noteq> 0
   \<and> example_getTime ''1970-01-01T00:00:01.000Z'' = Some 1000
   \<and> isExpired 1000 example_getTime (ExpiryNumber 1000)
   \<and> isExpired 1000 example_getTime (ExpiryString ''1970-01-01T00:00:01.000Z'')
   \<and> \<not> isExpired 1000 example_getTime (ExpiryNumber 1001)
   \<and> getClaudeToken 1000 example_getTime
          (Content \<lparr>claudeAiOauth = Some \<lparr>accessToken = Some ''tok'', expiresAt = None\<rparr>\<rparr>)
          = Some ''tok''
   \<and> getClaudeToken 1000 example_getTime
          (Content \<lparr>claudeAiOauth = Some \<lparr>accessToken = Some ''tok'',
                      expiresAt = Some ''1970-01-01T00:00:01.000Z''\<rparr>\<rparr>)
          = None"
  using isExpired_boundary_inclusive
      [of 1000 example_getTime "''1970-01-01T00:00:01.000Z''" 1001 1000 "''tok''"]
  by (simp add: example_getTime_def)

text \<open>
  Claim C10: a numeric expiry of 0 is falsy, so \<open>isExpired\<close> answers as it does for an
  absent expiry: not expired, at every time, although with a clock after the epoch the
  instant 0 is in the past and the expiry 1 already counts as expired.
  \<open>getOpenCodeToken\<close> then accepts the credential and returns its token.
\<close>

theorem isExpired_zero_expiry_is_falsy:
  "\<not> isExpired now getTime (ExpiryNumber 0)
   \<and> isExpired now getTime (ExpiryNumber 0) = isExpired now getTime NoExpiry
   \<and> (0 < now \<longrightarrow> 0 < real_of_int now \<and> isExpired now getTime (ExpiryNumber 1))
   \<and> (tok \<noteq> [] \<longrightarrow>
        getOpenCodeToken now getTime
          (Content \<lparr>anthropic = Some \<lparr>auth_type = Some ''oauth'', access = Some tok,
                                      expires = Some 0\<rparr>\<rparr>) = Some tok)"
  by (simp add: isExpired_def getOpenCodeToken_def getOpenCodeToken_try_def)

theorem isExpired_zero_expiry_is_falsy_witness:
  "(0::int) < 1000 \<and> isExpired 1000 example_getTime (ExpiryNumber 1)
   \<and> \<not> isExpired 1000 example_getTime (ExpiryNumber 0)
   \<and> getOpenCodeToken 1000 example_getTime
          (Content \<lparr>anthropic = Some \<lparr>auth_type = Some ''oauth'', access = Some ''oc'',
                                      expires = Some 0\<rparr>\<rparr>) = Some ''oc''"
  using isExpired_zero_expiry_is_falsy [of 1000 example_getTime "''oc''"]
  by simp

section \<open>The state store and the program\<close>

lemma loadState_cases:
  "loadState Missing = Returns zero_state"
  "loadState Malformed = Returns zero_state"
  "loadState (Content st) = Returns st"
  by (simp_all add: loadState_def loadState_try_def)

lemma loadState_returns: "\<exists>st. loadState f = Returns st"
  by (cases f) (simp_all add: loadState_cases)

lemma saveState_returns: "fst (saveState w st) = Returns ()"
  by (cases w) (simp_all add: saveState_def)

lemma report_usage_stdout:
  "stdout (report_usage env usage profile) =
     [\<lparr>w_text = TextPercent (floor_pct (window_or_empty (five_hour usage))),
       w_tooltip = UsageTooltip profile usage,
       w_class = cssClass (floor_pct (window_or_empty (five_hour usage))),
       w_percentage = Some (floor_pct (window_or_empty (five_hour usage)))\<rparr>]"
proof -
  obtain st where l: "loadState (env_state_file env) = Returns st"
    using loadState_returns by blast
  show ?thesis
    by (cases "env_state_write env")
       (simp_all add: report_usage_def Let_def l saveState_def split: prod.split)
qed

lemma report_usage_uncaught: "uncaught (report_usage env usage profile) = None"
proof -
  obtain st where l: "loadState (env_state_file env) = Returns st"
    using loadState_returns by blast
  show ?thesis
    by (cases "env_state_write env")
       (simp_all add: report_usage_def Let_def l saveState_def split: prod.split)
qed

lemma main_stdout_write_irrelevant:
  "stdout (main (env\<lparr>env_state_write := w\<rparr>)) = stdout (main env)"
  by (simp add: main_def report_usage_stdout
           split: option.split outcome.split prod.split)

lemma main_prints_one: "\<exists>out. stdout (main env) = [out]"
  by (simp add: main_def report_usage_stdout output_only_def
           split: option.split outcome.split prod.split)

lemma main_uncaught: "uncaught (main env) = None"
  by (simp add: main_def report_usage_uncaught output_only_def
           split: option.split outcome.split prod.split)

lemma example_env_token:
  "fst (getAccessToken (env_now example_env) (env_getTime example_env)
          (env_claude_credentials example_env) (env_opencode_auth example_env))
     = Some ''tok''"
  by (simp add: example_env_def getAccessToken_def
        getClaudeToken_def getClaudeToken_try_def isExpired_def)

text \<open>
  Claim C9: \<open>loadState\<close> returns the zero-value state when the state file is missing
  or its content cannot be read as JSON, and it never throws; \<open>saveState\<close> completes
  whatever the write does; and when the write fails, \<open>main\<close> prints the payload it
  prints when the write succeeds, exactly one, and ends without an exception.
\<close>

theorem state_store_failures_swallowed:
  "(f = Missing \<or> f = Malformed \<longrightarrow> loadState f = Returns zero_state)
   \<and> (\<forall>x. loadState f \<noteq> Throws x)
   \<and> zero_state = \<lparr>notified_thresholds = [], last_reset = Null\<rparr>
   \<and> saveState (Throws e) st = (Returns (), None)
   \<and> fst (saveState w st) = Returns ()
   \<and> stdout (main (env\<lparr>env_state_write := Throws e\<rparr>))
        = stdout (main (env\<lparr>env_state_write := Returns ()\<rparr>))
   \<and> uncaught (main (env\<lparr>env_state_write := Throws e\<rparr>)) = None
   \<and> (\<exists>out. stdout (main (env\<lparr>env_state_write := Throws e\<rparr>)) = [out])"
proof -
  have a: "f = Missing \<or> f = Malformed \<longrightarrow> loadState f = Returns zero_state"
    by (auto simp: loadState_cases)
  have b: "\<forall>x. loadState f \<noteq> Throws x"
    using loadState_returns [of f] by auto
  have c: "saveState (Throws e) st = (Returns (), None)"
    by (simp add: saveState_def)
  show ?thesis
    using a b c
    by (simp add: zero_state_def saveState_returns main_stdout_write_irrelevant
          main_uncaught main_prints_one)
qed

theorem state_store_failures_swallowed_witness:
  "loadState Malformed = Returns \<lparr>notified_thresholds = [], last_reset = Null\<rparr>
   \<and> stdout (main (example_env\<lparr>env_state_write := Throws ''EACCES''\<rparr>))
       = [\<lparr>w_text = TextPercent 19, w_tooltip = UsageTooltip example_profile example_usage,
           w_class = ''normal'', w_percentage = Some 19\<rparr>]
   \<and> uncaught (main (example_env\<lparr>env_state_write := Throws ''EACCES''\<rparr>)) = None"
proof -
  have r: "stdout (main (example_env\<lparr>env_state_write := Returns ()\<rparr>))
       = [\<lparr>w_text = TextPercent 19, w_tooltip = UsageTooltip example_profile example_usage,
           w_class = ''normal'', w_percentage = Some 19\<rparr>]"
    using example_env_token
    by (simp add: main_def report_usage_stdout example_env_def example_usage_def
          floor_pct_def cssClass_def)
  show ?thesis
    using state_store_failures_swallowed
        [of Malformed "''EACCES''" zero_state "Returns ()" example_env] r
    by simp
qed

text \<open>\<open>Math.floor(w.utilization ?? 0)\<close> of the window \<open>fh ?? {}\<close>, written out.\<close>

lemma floor_pct_eq:
  "floor_pct (window_or_empty fh) =
     \<lfloor>case fh of None \<Rightarrow> 0
      | Some w \<Rightarrow> (case utilization w of None \<Rightarrow> 0 | Some x \<Rightarrow> x)\<rfloor>"
  by (simp add: floor_pct_def empty_window_def split: option.split)

text \<open>
  Claim C8: in an invocation that gets a token and two responses without a usage
  error, let \<open>u\<close> be the five-hour utilization (0 when the window or the field is
  missing). The payload printed has the floor of \<open>u\<close> as its percentage, and its class
  is \<open>critical\<close> iff the floor is above 80 (that is, \<open>u \<ge> 81\<close>), \<open>warning\<close> iff it
  is above 50 and at most 80, and \<open>normal\<close> iff it is at most 50; the thresholds 90
  and 95 play no part.
\<close>

theorem main_css_class:
  assumes "fst (getAccessToken (env_now env) (env_getTime env)
                  (env_claude_credentials env) (env_opencode_auth env)) = Some token"
      and "env_usage_api env token = Returns usage"
      and "env_profile_api env token = Returns profile"
      and "u_error usage = None"
      and "u = (case five_hour usage of None \<Rightarrow> 0
                | Some w \<Rightarrow> (case utilization w of None \<Rightarrow> 0 | Some x \<Rightarrow> x))"
  shows "stdout (main env)
           = [\<lparr>w_text = TextPercent \<lfloor>u\<rfloor>, w_tooltip = UsageTooltip profile usage,
               w_class = (if \<lfloor>u\<rfloor> > 80 then ''critical''
                          else if \<lfloor>u\<rfloor> > 50 then ''warning'' else ''normal''),
               w_percentage = Some \<lfloor>u\<rfloor>\<rparr>]
         \<and> (map w_class (stdout (main env)) = [''critical''] \<longleftrightarrow> \<lfloor>u\<rfloor> > 80)
         \<and> (map w_class (stdout (main env)) = [''warning'']
              \<longleftrightarrow> \<lfloor>u\<rfloor> > 50 \<and> \<lfloor>u\<rfloor> \<le> 80)
         \<and> (map w_class (stdout (main env)) = [''normal''] \<longleftrightarrow> \<lfloor>u\<rfloor> \<le> 50)
         \<and> (\<lfloor>u\<rfloor> > 80 \<longleftrightarrow> u \<ge> 81) \<and> (\<lfloor>u\<rfloor> > 50 \<longleftrightarrow> u \<ge> 51)
         \<and> uncaught (main env) = None"
proof -
  have s: "stdout (main env)
           = [\<lparr>w_text = TextPercent \<lfloor>u\<rfloor>, w_tooltip = UsageTooltip profile usage,
               w_class = (if \<lfloor>u\<rfloor> > 80 then ''critical''
                          else if \<lfloor>u\<rfloor> > 50 then ''warning'' else ''normal''),
               w_percentage = Some \<lfloor>u\<rfloor>\<rparr>]"
    using assms getAccessToken_truthy [OF assms(1)]
    by (simp add: main_def report_usage_stdout floor_pct_eq cssClass_def)
  have f: "(\<lfloor>u\<rfloor> > 80 \<longleftrightarrow> u \<ge> 81) \<and> (\<lfloor>u\<rfloor> > 50 \<longleftrightarrow> u \<ge> 51)"
    by linarith
  have c: "uncaught (main env) = None" by (rule main_uncaught)
  show ?thesis
    unfolding s using f c by simp
qed

text \<open>
  Utilization 19 and a credential without expiry: class \<open>normal\<close>, percentage 19.
  Utilization 80.5: percentage 80 and class \<open>warning\<close>, the floor and not the
  rounded value.
\<close>

theorem main_css_class_witness:
  "stdout (main example_env)
       = [\<lparr>w_text = TextPercent 19, w_tooltip = UsageTooltip example_profile example_usage,
           w_class = ''normal'', w_percentage = Some 19\<rparr>]
   \<and> map w_class (stdout (main fractional_env)) = [''warning'']
   \<and> map w_percentage (stdout (main fractional_env)) = [Some 80]"
proof -
  have u: "env_usage_api example_env ''tok'' = Returns example_usage"
    and pr: "env_profile_api example_env ''tok'' = Returns example_profile"
    by (simp_all add: example_env_def)
  have e: "u_error example_usage = None" by (simp add: example_usage_def)
  have p: "19 = (case five_hour example_usage of None \<Rightarrow> 0
                | Some w \<Rightarrow> (case utilization w of None \<Rightarrow> 0 | Some x \<Rightarrow> x))"
    by (simp add: example_usage_def)
  have t: "fst (getAccessToken (env_now fractional_env) (env_getTime fractional_env)
                  (env_claude_credentials fractional_env)
                  (env_opencode_auth fractional_env)) = Some ''tok''"
    using example_env_token by (simp add: fractional_env_def)
  have fu: "env_usage_api fractional_env ''tok''
      = Returns (example_usage\<lparr>five_hour :=
                   Some \<lparr>utilization = Some 80.5,
                         resets_at = Str ''2026-01-01T05:00:00Z''\<rparr>\<rparr>)"
    and fpr: "env_profile_api fractional_env ''tok'' = Returns example_profile"
    by (simp_all add: fractional_env_def example_env_def)
  have fe: "u_error (example_usage\<lparr>five_hour :=
                   Some \<lparr>utilization = Some 80.5,
                         resets_at = Str ''2026-01-01T05:00:00Z''\<rparr>\<rparr>) = None"
    by (simp add: example_usage_def)
  have fp: "80.5 = (case five_hour (example_usage\<lparr>five_hour :=
                   Some \<lparr>utilization = Some 80.5,
                         resets_at = Str ''2026-01-01T05:00:00Z''\<rparr>\<rparr>) of None \<Rightarrow> 0
                | Some w \<Rightarrow> (case utilization w of None \<Rightarrow> 0 | Some x \<Rightarrow> x))"
    by simp
  have fl: "\<lfloor>80.5 :: real\<rfloor> = 80" by linarith
  show ?thesis
    using main_css_class [OF example_env_token u pr e p]
      main_css_class [OF t fu fpr fe fp] fl
    by simp
qed

text \<open>
  Claim C7, as the program has it: when the usage response carries a top-level error
  object, \<open>main\<close> prints one payload of class \<open>error\<close> whose tooltip holds the error's
  message (\<open>Unknown\<close> when it has none) and no percentage, sends no notification and
  writes no state, whatever windows the response holds. Only the usage response is
  inspected.
\<close>

theorem main_usage_error_short_circuits:
  assumes "fst (getAccessToken (env_now env) (env_getTime env)
                  (env_claude_credentials env) (env_opencode_auth env)) = Some token"
      and "env_usage_api env token = Returns usage"
      and "env_profile_api env token = Returns profile"
      and "u_error usage = Some err"
  shows "main env =
           \<lparr>stdout = [\<lparr>w_text = TextFailed,
                       w_tooltip = ApiErrorTooltip
                          (case message err of None \<Rightarrow> ''Unknown'' | Some m \<Rightarrow> m),
                       w_class = ''error'', w_percentage = None\<rparr>],
            notifications = [], written = None, uncaught = None\<rparr>"
  using assms getAccessToken_truthy [OF assms(1)]
  by (simp add: main_def output_only_def)

theorem main_usage_error_short_circuits_witness:
  "main usage_error_env =
     \<lparr>stdout = [\<lparr>w_text = TextFailed, w_tooltip = ApiErrorTooltip ''rate limited'',
                 w_class = ''error'', w_percentage = None\<rparr>],
      notifications = [], written = None, uncaught = None\<rparr>"
proof -
  have t: "fst (getAccessToken (env_now usage_error_env) (env_getTime usage_error_env)
                  (env_claude_credentials usage_error_env)
                  (env_opencode_auth usage_error_env)) = Some ''tok''"
    using example_env_token by (simp add: usage_error_env_def)
  have u: "env_usage_api usage_error_env ''tok''
             = Returns (example_usage\<lparr>u_error := Some \<lparr>message = Some ''rate limited''\<rparr>\<rparr>)"
    and pr: "env_profile_api usage_error_env ''tok'' = Returns example_profile"
    by (simp_all add: usage_error_env_def example_env_def)
  have e: "u_error (example_usage\<lparr>u_error := Some \<lparr>message = Some ''rate limited''\<rparr>\<rparr>)
             = Some \<lparr>message = Some ''rate limited''\<rparr>" by simp
  show ?thesis using main_usage_error_short_circuits [OF t u pr e] by simp
qed

text \<open>
  Claim C7 as written also covers the profile response. When the profile response
  carries an error object and the usage response does not, the program prints the usage
  payload: class \<open>normal\<close>, percentage 19.
\<close>

theorem main_profile_error_not_short_circuited:
  "env_profile_api profile_error_env ''tok''
      = Returns \<lparr>account = None, organization = None,
                 p_error = Some \<lparr>message = Some ''forbidden''\<rparr>\<rparr>
   \<and> map w_class (stdout (main profile_error_env)) = [''normal'']
   \<and> map w_percentage (stdout (main profile_error_env)) = [Some 19]"
proof -
  have t: "fst (getAccessToken (env_now profile_error_env) (env_getTime profile_error_env)
                  (env_claude_credentials profile_error_env)
                  (env_opencode_auth profile_error_env)) = Some ''tok''"
    using example_env_token by (simp add: profile_error_env_def)
  show ?thesis
    using t
    by (simp add: main_def report_usage_stdout profile_error_env_def example_env_def
          example_usage_def example_profile_def floor_pct_def cssClass_def)
qed

text \<open>
  Two polls in a row of a window without \<open>resets_at\<close>, at 60 percent. The first
  starts without a state file, notifies threshold 50 and writes the state; the second
  reads that state and notifies threshold 50 again.
\<close>

lemma main_renotifies_without_resets_at:
  "written (main no_resets_at_env) = Some \<lparr>notified_thresholds = [50], last_reset = Null\<rparr>
   \<and> map n_threshold (notifications (main no_resets_at_env)) = [50]
   \<and> map n_threshold
        (notifications
           (main (no_resets_at_env
              \<lparr>env_state_file :=
                 Content \<lparr>notified_thresholds = [50], last_reset = Null\<rparr>\<rparr>))) = [50]"
proof -
  have t: "fst (getAccessToken (env_now no_resets_at_env) (env_getTime no_resets_at_env)
                  (env_claude_credentials no_resets_at_env)
                  (env_opencode_auth no_resets_at_env)) = Some ''tok''"
    using example_env_token by (simp add: no_resets_at_env_def)
  show ?thesis
    using t
    by (simp add: main_def report_usage_def no_resets_at_env_def example_env_def
          example_usage_def floor_pct_def loadState_cases saveState_def zero_state_def
          checkAndNotify_def THRESHOLDS_def)
qed

end
